theory Spec2Isabelle
  imports Main "HOL-Library.Sublist" "HOL-Library.Word"
begin

section \<open>Values, exceptions and the outside world\<close>

text \<open>
  The importer \<^verbatim>\<open>src/importer/monroe_dbimporter.py\<close> is Python 2. A decoded JSON value is
  a \<open>json\<close>; a Python dict is represented by its item list in the order in which
  \<^verbatim>\<open>keys()\<close> and \<^verbatim>\<open>values()\<close> enumerate it (the two calls of \<^verbatim>\<open>get_cql\<close> enumerate the
  same unmodified dict, so they agree on that order). Numbers are restricted to integers
  and text to ASCII; no property below depends on either.
\<close>

datatype json =
    JNull
  | JBool bool
  | JNumber int
  | JString string
  | JArray "json list"
  | JObject "(string \<times> json) list"

text \<open>
  Every \<^verbatim>\<open>raise\<close> of the source and every failure of a library call is a value of \<open>exn\<close>;
  each constructor carries what \<^verbatim>\<open>str(error)\<close> needs.
\<close>

datatype exn =
    Exception string
  | KeyError string
  | TypeError string
  | AttributeError string
  | OSError string
  | UnboundLocalError string
  | ValueError string
  | SinkError string

text \<open>A text between single quotes, as \<^verbatim>\<open>repr\<close> writes a plain string.\<close>

definition quoted :: "string \<Rightarrow> string" where
  "quoted s = [CHR 0x27] @ s @ [CHR 0x27]"

fun str_exn :: "exn \<Rightarrow> string" where
  "str_exn (Exception m) = m"
| "str_exn (KeyError k) = quoted k"
| "str_exn (TypeError m) = m"
| "str_exn (AttributeError m) = m"
| "str_exn (OSError m) = m"
| "str_exn (UnboundLocalError m) = m"
| "str_exn (ValueError m) = m"
| "str_exn (SinkError m) = m"

datatype priority = LOG_ERR | LOG_WARNING

text \<open>
  A batch is the list of \<^verbatim>\<open>(statement, values)\<close> pairs added to the \<^verbatim>\<open>BatchStatement\<close>.
  What is printed on the console is kept unformatted: a \<open>Statement\<close> line holds the
  statement string and the values that \<^verbatim>\<open>create_batch\<close> prints.
\<close>

type_synonym batch = "(string \<times> json list) list"

datatype out = Statement string "json list" | Line string

text \<open>
  The world a worker acts on: the regular files (path to content), the directories that
  exist (named as \<^verbatim>\<open>os.path.dirname\<close> names them), the batches the sink has committed
  (oldest first), the system log and the console.
\<close>

record world =
  files :: "string \<rightharpoonup> string"
  dirs :: "string list"
  executed :: "batch list"
  syslog :: "(priority \<times> string) list"
  stdout :: "out list"

text \<open>
  A session is the sink's verdict on a batch, given what it has committed so far:
  \<open>None\<close> when \<^verbatim>\<open>session.execute\<close> returns, \<open>Some e\<close> when it raises \<open>e\<close>. The session
  argument of \<^verbatim>\<open>handle_file\<close> is a \<open>session option\<close>: \<open>None\<close> is Python's \<^verbatim>\<open>None\<close>
  (debug mode).
\<close>

type_synonym session = "batch list \<Rightarrow> batch \<Rightarrow> exn option"

subsection \<open>Paths (posixpath)\<close>

definition slash :: char where
  "slash = CHR ''/''"

text \<open>\<^verbatim>\<open>os.path.basename(p)\<close>: what follows the last slash.\<close>

definition basename :: "string \<Rightarrow> string" where
  "basename p = rev (takeWhile (\<lambda>c. c \<noteq> slash) (rev p))"

text \<open>
  \<^verbatim>\<open>os.path.dirname(p)\<close>: what precedes the basename, without its trailing slashes
  unless it consists of slashes only.
\<close>

definition rstrip_slash :: "string \<Rightarrow> string" where
  "rstrip_slash s = rev (dropWhile (\<lambda>c. c = slash) (rev s))"

definition dirname :: "string \<Rightarrow> string" where
  "dirname p =
     (let head = rev (dropWhile (\<lambda>c. c \<noteq> slash) (rev p))
      in if head \<noteq> [] \<and> \<not> list_all (\<lambda>c. c = slash) head then rstrip_slash head else head)"

text \<open>\<^verbatim>\<open>os.path.join(a, b)\<close> for two components.\<close>

definition join :: "string \<Rightarrow> string \<Rightarrow> string" where
  "join a b =
     (if b \<noteq> [] \<and> hd b = slash then b
      else if a = [] \<or> last a = slash then a @ b
      else a @ [slash] @ b)"

subsection \<open>File system calls\<close>

text \<open>
  The error of a missing file or directory. \<^verbatim>\<open>os.rename\<close> raises it without a file name;
  \<^verbatim>\<open>os.stat\<close> adds the name of the file as \<^verbatim>\<open>repr\<close> writes it (here: for a path without
  quotes or escapes).
\<close>

definition enoent :: exn where
  "enoent = OSError ''[Errno 2] No such file or directory''"

definition enoent_at :: "string \<Rightarrow> exn" where
  "enoent_at filename = OSError (''[Errno 2] No such file or directory: '' @ quoted filename)"

text \<open>\<^verbatim>\<open>os.stat(filename).st_size\<close>: raises when there is no such file.\<close>

definition st_size :: "world \<Rightarrow> string \<Rightarrow> exn + nat" where
  "st_size w filename =
     (case files w filename of None \<Rightarrow> Inl (enoent_at filename) | Some c \<Rightarrow> Inr (length c))"

text \<open>
  \<^verbatim>\<open>os.rename(src, dst)\<close>: raises when the source is missing or the directory of the
  destination does not exist; otherwise the destination holds the source's content
  (replacing a file that was there) and the source path is gone.
\<close>

definition rename :: "world \<Rightarrow> string \<Rightarrow> string \<Rightarrow> exn + world" where
  "rename w src dst =
     (case files w src of
        None \<Rightarrow> Inl enoent
      | Some c \<Rightarrow>
          if dirname dst \<in> set (dirs w)
          then Inr (w\<lparr>files := ((files w)(src := None))(dst \<mapsto> c)\<rparr>)
          else Inl enoent)"

text \<open>
  \<^verbatim>\<open>for line in f\<close>: the content cut after each newline, every line keeping its
  newline; the last line may lack one.
\<close>

definition newline :: char where
  "newline = CHR 0x0A"

fun file_lines :: "string \<Rightarrow> string list" where
  "file_lines [] = []"
| "file_lines (c # cs) =
     (if c = newline then [c] # file_lines cs
      else (case file_lines cs of [] \<Rightarrow> [[c]] | l # ls \<Rightarrow> (c # l) # ls))"

section \<open>The importer\<close>

subsection \<open>\<^verbatim>\<open>get_cql\<close>\<close>

text \<open>\<^verbatim>\<open>','.join(xs)\<close>.\<close>

fun comma_join :: "string list \<Rightarrow> string" where
  "comma_join [] = []"
| "comma_join [x] = x"
| "comma_join (x # y # ys) = x @ '','' @ comma_join (y # ys)"

text \<open>
  \<^verbatim>\<open>get_cql(j, tablename)\<close>, for a dict \<open>j\<close> given by its items: the statement string and
  \<^verbatim>\<open>columns.values()\<close>.
\<close>

definition get_cql :: "(string \<times> json) list \<Rightarrow> string \<Rightarrow> string \<times> json list" where
  "get_cql columns tablename =
     (let headers = comma_join (map fst columns);
          values_placeholder = comma_join (map (\<lambda>v. ''%s'') (map snd columns));
          cql_string = ''INSERT INTO '' @ tablename @ '' ('' @ headers @ '') VALUES (''
                         @ values_placeholder @ '')''
      in (cql_string, map snd columns))"

subsection \<open>\<^verbatim>\<open>parse_json\<close>\<close>

text \<open>
  \<^verbatim>\<open>json.loads\<close> is a library function: it is the parameter \<open>loads\<close>, \<open>None\<close> standing for
  the \<^verbatim>\<open>ValueError\<close> of a text that is not a complete JSON value.

  \<open>parse_lines loads jsons line single rest\<close> is the state of the two nested loops at
  the \<^verbatim>\<open>try\<close>: \<open>line\<close> is the buffer, \<open>single\<close> the flag \<^verbatim>\<open>each_json_on_single_line\<close>,
  \<open>rest\<close> what the iterator \<open>f\<close> still holds. On success the record is appended and the
  \<^verbatim>\<open>for\<close> loop takes the next line, setting the flag to \<^verbatim>\<open>True\<close> again (the assignment is
  inside the \<^verbatim>\<open>for\<close> body); on failure \<^verbatim>\<open>next(f)\<close> is appended to the buffer and the flag
  cleared, or the end of the file raises the parse error (\<^verbatim>\<open>str(StopIteration())\<close> is
  empty). The result is the list of records with the final value of the flag.
\<close>

fun parse_lines ::
  "(string \<Rightarrow> 'j option) \<Rightarrow> 'j list \<Rightarrow> string \<Rightarrow> bool \<Rightarrow> string list \<Rightarrow> exn + 'j list \<times> bool" where
  "parse_lines loads jsons line single [] =
     (case loads line of
        Some j \<Rightarrow> Inr (jsons @ [j], single)
      | None \<Rightarrow> Inl (Exception ''Parse Error ''))"
| "parse_lines loads jsons line single (l # rest) =
     (case loads line of
        Some j \<Rightarrow> parse_lines loads (jsons @ [j]) l True rest
      | None \<Rightarrow> parse_lines loads jsons (line @ l) False rest)"

definition perf_warning :: "string \<Rightarrow> priority \<times> string" where
  "perf_warning name =
     (LOG_WARNING, ''possible performance hit : file '' @ name
                     @ '' contains pretty printed JSON objects'')"

text \<open>
  \<^verbatim>\<open>parse_json(f)\<close> for the file object with name \<open>name\<close> and lines \<open>lines\<close>: the records
  and the warnings sent to the system log. With no line at all the \<^verbatim>\<open>for\<close> body never
  runs and the test after the loop reads a local variable that was never assigned.
\<close>

definition parse_json ::
  "(string \<Rightarrow> 'j option) \<Rightarrow> string \<Rightarrow> string list \<Rightarrow> exn + 'j list \<times> (priority \<times> string) list" where
  "parse_json loads name lines =
     (case lines of
        [] \<Rightarrow> Inl (UnboundLocalError
                ''local variable 'each_json_on_single_line' referenced before assignment'')
      | line # rest \<Rightarrow>
          (case parse_lines loads [] line True rest of
             Inl e \<Rightarrow> Inl e
           | Inr (jsons, each_json_on_single_line) \<Rightarrow>
               Inr (jsons, if \<not> each_json_on_single_line then [perf_warning name] else [])))"

subsection \<open>The driver's \<^verbatim>\<open>BatchStatement.add\<close>\<close>

text \<open>
  \<^verbatim>\<open>batch.add(stm, values)\<close> is a call into the Cassandra driver. With a non-empty list of
  values it binds them at once, \<^verbatim>\<open>query_string % tuple(encoder.cql_encode_all_types(v)
  for v in values)\<close>, and then refuses the statement when the batch already holds
  \<^verbatim>\<open>0xFFFF\<close> statements. Both steps can raise, so both are modelled: the \<^verbatim>\<open>%\<close> operator of
  Python 2 on a byte string and a tuple of byte strings, as far as it decides whether and
  how the binding fails, and the encoder, whose results are the arguments.
\<close>

definition is_digit :: "char \<Rightarrow> bool" where
  "is_digit c = (48 \<le> (of_char c :: nat) \<and> (of_char c :: nat) \<le> 57)"

text \<open>\<^verbatim>\<open>str(n)\<close> for a natural number, and its lower-case hexadecimal digits (\<^verbatim>\<open>%x\<close>).\<close>

fun decimal :: "nat \<Rightarrow> string" where
  "decimal n =
     (if n < 10 then [char_of (48 + n)]
      else decimal (n div 10) @ [char_of (48 + n mod 10)])"

definition hex_digit :: "nat \<Rightarrow> char" where
  "hex_digit d = (if d < 10 then char_of (48 + d) else char_of (87 + d))"

fun hex :: "nat \<Rightarrow> string" where
  "hex n = (if n < 16 then [hex_digit n] else hex (n div 16) @ [hex_digit (n mod 16)])"

text \<open>
  The encoder. A string is put between single quotes with every single quote doubled; an
  integer and a boolean are written by \<^verbatim>\<open>str\<close>; \<^verbatim>\<open>None\<close> is \<^verbatim>\<open>NULL\<close>; a list and a dict are
  written with their encoded members.
\<close>

fun join_with :: "string \<Rightarrow> string list \<Rightarrow> string" where
  "join_with sep [] = []"
| "join_with sep [x] = x"
| "join_with sep (x # y # ys) = x @ sep @ join_with sep (y # ys)"

definition cql_quote :: "string \<Rightarrow> string" where
  "cql_quote s = quoted (concat (map (\<lambda>c. if c = CHR 0x27 then [c, c] else [c]) s))"

fun cql_encode :: "json \<Rightarrow> string" where
  "cql_encode JNull = ''NULL''"
| "cql_encode (JBool b) = (if b then ''True'' else ''False'')"
| "cql_encode (JNumber n) = (if n < 0 then ''-'' @ decimal (nat (- n)) else decimal (nat n))"
| "cql_encode (JString s) = cql_quote s"
| "cql_encode (JArray xs) = ''['' @ join_with '', '' (map cql_encode xs) @ '']''"
| "cql_encode (JObject kvs) =
     ''{'' @ join_with '', '' (map (\<lambda>kv. cql_quote (fst kv) @ '': '' @ cql_encode (snd kv)) kvs)
       @ ''}''"

text \<open>
  The \<^verbatim>\<open>%\<close> operator reads the format from left to right. After a \<^verbatim>\<open>%\<close> come, in this
  order and each optional: a mapping key in parentheses (refused, the arguments being a
  tuple), flags, a width, a precision after a dot, a length modifier; then the conversion
  character. \<open>scan_state\<close> says where in a conversion specifier the scan is; \<open>step\<close>
  reads one character of a specifier.
\<close>

datatype scan_state = Plain | Start | Flags | Width | Dot | Prec | Len

datatype scan_step = Goto scan_state | Convert char | MappingError | StarError

definition is_flag :: "char \<Rightarrow> bool" where
  "is_flag c = (c \<in> set ''-+ #0'')"

definition after_prec :: "char \<Rightarrow> scan_step" where
  "after_prec c = (if c \<in> set ''hlL'' then Goto Len else Convert c)"

definition after_width :: "char \<Rightarrow> scan_step" where
  "after_width c = (if c = CHR ''.'' then Goto Dot else after_prec c)"

definition after_flags :: "char \<Rightarrow> scan_step" where
  "after_flags c =
     (if is_flag c then Goto Flags
      else if c = CHR ''*'' then StarError
      else if is_digit c then Goto Width
      else after_width c)"

fun step :: "scan_state \<Rightarrow> char \<Rightarrow> scan_step" where
  "step Plain c = Goto Plain"
| "step Start c = (if c = CHR ''('' then MappingError else after_flags c)"
| "step Flags c = after_flags c"
| "step Width c = (if is_digit c then Goto Width else after_width c)"
| "step Dot c =
     (if c = CHR ''*'' then StarError else if is_digit c then Goto Prec else after_prec c)"
| "step Prec c = (if is_digit c then Goto Prec else after_prec c)"
| "step Len c = Convert c"

text \<open>
  The conversion \<open>k\<close>, read at index \<open>i\<close> of the format, with the arguments not yet
  used: the exception it raises, or the arguments left. Every argument is a byte string,
  so the numeric conversions raise, and \<^verbatim>\<open>%c\<close> accepts a string of one character.
\<close>

definition convert :: "char \<Rightarrow> nat \<Rightarrow> string list \<Rightarrow> exn + string list" where
  "convert k i args =
     (if k = CHR ''%'' then Inr args
      else
        (case args of
           [] \<Rightarrow> Inl (TypeError ''not enough arguments for format string'')
         | a # rest \<Rightarrow>
             if k = CHR ''s'' \<or> k = CHR ''r'' then Inr rest
             else if k = CHR ''c'' then
               (if length a = 1 then Inr rest else Inl (TypeError ''%c requires int or char''))
             else if k \<in> set ''iduoxX'' then
               Inl (TypeError (''%'' @ [if k = CHR ''i'' then CHR ''d'' else k]
                      @ '' format: a number is required, not str''))
             else if k \<in> set ''eEfFgG'' then
               Inl (TypeError ''float argument required, not str'')
             else
               Inl (ValueError (''unsupported format character '' @ quoted [k] @ '' (0x''
                      @ hex (of_char k) @ '') at index '' @ decimal i))))"

text \<open>
  \<open>format_error st i fmt args\<close>: the scan is in state \<open>st\<close> at index \<open>i\<close>, \<open>fmt\<close> is what
  is left of the format and \<open>args\<close> the arguments not yet used. The result is the exception
  that \<^verbatim>\<open>%\<close> raises, or \<open>None\<close> when it returns the formatted string.
\<close>

fun format_error :: "scan_state \<Rightarrow> nat \<Rightarrow> string \<Rightarrow> string list \<Rightarrow> exn option" where
  "format_error st i [] args =
     (if st = Plain then
        (if args = [] then None
         else Some (TypeError ''not all arguments converted during string formatting''))
      else Some (ValueError ''incomplete format''))"
| "format_error st i (c # cs) args =
     (if st = Plain then
        format_error (if c = CHR ''%'' then Start else Plain) (i + 1) cs args
      else
        (case step st c of
           Goto st' \<Rightarrow> format_error st' (i + 1) cs args
         | MappingError \<Rightarrow> Some (TypeError ''format requires a mapping'')
         | StarError \<Rightarrow>
             Some (TypeError (if args = [] then ''not enough arguments for format string''
                              else ''* wants int''))
         | Convert k \<Rightarrow>
             (case convert k i args of
                Inl e \<Rightarrow> Some e
              | Inr args' \<Rightarrow> format_error Plain (i + 1) cs args')))"

text \<open>\<^verbatim>\<open>bind_params(query, params, encoder)\<close>: the exception it ends with, if any.\<close>

definition bind_params_error :: "string \<Rightarrow> json list \<Rightarrow> exn option" where
  "bind_params_error query params = format_error Plain 0 query (map cql_encode params)"

text \<open>
  \<^verbatim>\<open>batch.add(stm, values)\<close>. An entry of the batch is kept as the statement string with the
  values bound into it.
\<close>

definition batch_add :: "batch \<Rightarrow> string \<Rightarrow> json list \<Rightarrow> exn + batch" where
  "batch_add batch stm vals =
     (case (if vals = [] then None else bind_params_error stm vals) of
        Some e \<Rightarrow> Inl e
      | None \<Rightarrow>
          if 65535 \<le> length batch
          then Inl (ValueError ''Batch statement cannot contain more than 65535 statements.'')
          else Inr (batch @ [(stm, vals)]))"

subsection \<open>\<^verbatim>\<open>create_batch\<close>\<close>

definition type_name :: "json \<Rightarrow> string" where
  "type_name j =
     (case j of
        JNull \<Rightarrow> ''NoneType'' | JBool b \<Rightarrow> ''bool'' | JNumber n \<Rightarrow> ''int''
      | JString s \<Rightarrow> ''unicode'' | JArray xs \<Rightarrow> ''list'' | JObject kvs \<Rightarrow> ''dict'')"

text \<open>\<^verbatim>\<open>s.replace('.', '_')\<close>: every occurrence is replaced.\<close>

definition replace_dots :: "string \<Rightarrow> string" where
  "replace_dots s = map (\<lambda>c. if c = CHR ''.'' then CHR ''_'' else c) s"

text \<open>
  \<^verbatim>\<open>j['DataId'].replace('.', '_')\<close>: subscripting anything but a dict with a string raises
  \<^verbatim>\<open>TypeError\<close>, a dict without the key raises \<^verbatim>\<open>KeyError\<close>, and only a string has the
  method \<^verbatim>\<open>replace\<close>.
\<close>

definition tablename_of :: "json \<Rightarrow> exn + string" where
  "tablename_of j =
     (case j of
        JObject kvs \<Rightarrow>
          (case map_of kvs ''DataId'' of
             None \<Rightarrow> Inl (KeyError ''DataId'')
           | Some (JString s) \<Rightarrow> Inr (replace_dots s)
           | Some v \<Rightarrow>
               Inl (AttributeError (quoted (type_name v) @ '' object has no attribute ''
                      @ quoted ''replace'')))
      | JArray xs \<Rightarrow> Inl (TypeError ''list indices must be integers, not str'')
      | JString s \<Rightarrow> Inl (TypeError ''string indices must be integers'')
      | _ \<Rightarrow>
          Inl (TypeError (quoted (type_name j) @ '' object has no attribute ''
                 @ quoted ''__getitem__'')))"

definition items :: "json \<Rightarrow> (string \<times> json) list" where
  "items j = (case j of JObject kvs \<Rightarrow> kvs | _ \<Rightarrow> [])"

text \<open>
  The loop of \<^verbatim>\<open>create_batch\<close>, with the counter, the batch and the console output so
  far. An exception leaves the loop at once; what was printed before it stays printed
  (the statement is printed before it is added to the batch).
\<close>

fun create_batch_loop ::
  "json list \<Rightarrow> bool \<Rightarrow> nat \<Rightarrow> batch \<Rightarrow> out list \<Rightarrow> out list \<times> (exn + nat \<times> batch)" where
  "create_batch_loop [] print_stm inserts batch printed = (printed, Inr (inserts, batch))"
| "create_batch_loop (j # js) print_stm inserts batch printed =
     (case tablename_of j of
        Inl e \<Rightarrow> (printed, Inl e)
      | Inr tablename \<Rightarrow>
          (let (stm_str, vals) = get_cql (items j) tablename;
               printed' = (if print_stm then printed @ [Statement stm_str vals] else printed)
           in case batch_add batch stm_str vals of
                Inl e \<Rightarrow> (printed', Inl e)
              | Inr batch' \<Rightarrow> create_batch_loop js print_stm (inserts + 1) batch' printed'))"

definition create_batch :: "json list \<Rightarrow> bool \<Rightarrow> out list \<times> (exn + nat \<times> batch)" where
  "create_batch json_store print_stm = create_batch_loop json_store print_stm 0 [] []"

subsection \<open>\<^verbatim>\<open>handle_file\<close>\<close>

text \<open>
  \<open>handle_file_try\<close> is the body of the \<^verbatim>\<open>try\<close>: the world it leaves behind and either the
  exception that left it or the value of \<^verbatim>\<open>return inserts\<close>. Effects that happened
  before an exception stay: a batch that the sink committed is committed also when the
  rename that follows raises.
\<close>

definition dest_path :: "string \<Rightarrow> string \<Rightarrow> string" where
  "dest_path dir filename = dir @ basename filename"

definition handle_file_try ::
  "(string \<Rightarrow> json option) \<Rightarrow> world \<Rightarrow> string \<Rightarrow> string \<Rightarrow> session option
     \<Rightarrow> world \<times> (exn + nat)" where
  "handle_file_try loads w filename processed_dir session =
     (case st_size w filename of
        Inl e \<Rightarrow> (w, Inl e)
      | Inr sz \<Rightarrow>
          if sz = 0 then (w, Inl (Exception ''Zero file size''))
          else
            (case files w filename of
               None \<Rightarrow> (w, Inl (enoent_at filename))
             | Some content \<Rightarrow>
                 (case parse_json loads filename (file_lines content) of
                    Inl e \<Rightarrow> (w, Inl e)
                  | Inr (json_store, warnings) \<Rightarrow>
                      (let w1 = w\<lparr>syslog := syslog w @ warnings\<rparr>;
                           (printed, built) = create_batch json_store (session = None);
                           w2 = w1\<lparr>stdout := stdout w1 @ printed\<rparr>
                       in case built of
                            Inl e \<Rightarrow> (w2, Inl e)
                          | Inr (inserts, batch) \<Rightarrow>
                              (case session of
                                 None \<Rightarrow>
                                   (w2\<lparr>stdout := stdout w2
                                          @ [Line (''Executed bath on file '' @ filename)]\<rparr>,
                                    Inr inserts)
                               | Some execute \<Rightarrow>
                                   (case execute (executed w2) batch of
                                      Some e \<Rightarrow> (w2, Inl e)
                                    | None \<Rightarrow>
                                        (let w3 = w2\<lparr>executed := executed w2 @ [batch]\<rparr>
                                         in case rename w3 filename
                                                   (dest_path processed_dir filename) of
                                              Inl e \<Rightarrow> (w3, Inl e)
                                            | Inr w4 \<Rightarrow> (w4, Inr inserts))))))))"

text \<open>
  \<open>handle_file_except\<close> is the handler of \<^verbatim>\<open>except Exception as error\<close>. Its rename is
  outside every \<^verbatim>\<open>try\<close>: when it raises, the exception leaves \<^verbatim>\<open>handle_file\<close>.
\<close>

definition handle_file_except ::
  "exn \<Rightarrow> world \<Rightarrow> string \<Rightarrow> string \<Rightarrow> session option \<Rightarrow> world \<times> (exn + nat)" where
  "handle_file_except error w filename failed_dir session =
     (let dest = dest_path failed_dir filename;
          log_str = str_exn error @ '' in file '' @ filename @ '' moving to '' @ dest
      in case session of
           Some execute \<Rightarrow>
             (case rename w filename dest of
                Inl e \<Rightarrow> (w, Inl e)
              | Inr w' \<Rightarrow> (w'\<lparr>syslog := syslog w' @ [(LOG_ERR, log_str)]\<rparr>, Inr 0))
         | None \<Rightarrow> (w\<lparr>stdout := stdout w @ [Line log_str]\<rparr>, Inr 0))"

definition handle_file ::
  "(string \<Rightarrow> json option) \<Rightarrow> world \<Rightarrow> string \<Rightarrow> string \<Rightarrow> string \<Rightarrow> session option
     \<Rightarrow> world \<times> (exn + nat)" where
  "handle_file loads w filename failed_dir processed_dir session =
     (case handle_file_try loads w filename processed_dir session of
        (w', Inr inserts) \<Rightarrow> (w', Inr inserts)
      | (w', Inl error) \<Rightarrow> handle_file_except error w' filename failed_dir session)"

subsection \<open>\<^verbatim>\<open>schedule_workers\<close>\<close>

text \<open>
  A directory as \<^verbatim>\<open>os.walk\<close> lists it: its subdirectories by name, and the names of its
  other entries. Names in one directory are distinct and hold no slash.
\<close>

datatype dir_tree = Dir "(string \<times> dir_tree) list" "string list"

text \<open>
  \<^verbatim>\<open>os.walk(root, topdown=True)\<close> with the caller's in-place pruning \<open>keep\<close> of the yielded
  directory list: the triples \<^verbatim>\<open>(root, dirs, files)\<close> in the order they are yielded. Only
  the directories left in \<^verbatim>\<open>dirs\<close> are descended into.
\<close>

fun walk :: "(string \<Rightarrow> bool) \<Rightarrow> string \<Rightarrow> dir_tree \<Rightarrow> (string \<times> string list \<times> string list) list"
  and walk_dirs ::
    "(string \<Rightarrow> bool) \<Rightarrow> string \<Rightarrow> (string \<times> dir_tree) list
       \<Rightarrow> (string \<times> string list \<times> string list) list" where
  "walk keep root (Dir subs nondirs) =
     (root, filter keep (map fst subs), nondirs) # walk_dirs keep root subs"
| "walk_dirs keep root [] = []"
| "walk_dirs keep root ((name, t) # subs) =
     (if keep name then walk keep (join root name) t else []) @ walk_dirs keep root subs"

text \<open>\<^verbatim>\<open>fnmatch.filter(files, '*.json')\<close> keeps the names that end in \<^verbatim>\<open>.json\<close>.\<close>

definition fnmatch_json :: "string \<Rightarrow> bool" where
  "fnmatch_json name = suffix ''.json'' name"

text \<open>
  The paths that \<^verbatim>\<open>schedule_workers\<close> hands to the pool, in order. The pruning test joins
  each directory name to \<open>in_dir\<close> (not to the directory being listed) and looks the
  result up in the set of the two directory strings.
\<close>

definition scheduled_paths :: "string \<Rightarrow> string \<Rightarrow> string \<Rightarrow> dir_tree \<Rightarrow> string list" where
  "scheduled_paths in_dir failed_dir processed_dir tree =
     concat (map (\<lambda>(root, ds, fs). map (join root) (filter fnmatch_json fs))
               (walk (\<lambda>d. join in_dir d \<notin> {processed_dir, failed_dir}) in_dir tree))"

text \<open>
  The pool runs one \<^verbatim>\<open>handle_file\<close> per path. The calls are modelled as running one after
  the other in the order of submission, after the traversal: one of the schedules the
  thread pool allows. Each result is the call's return value or the exception it ended
  with (an \<^verbatim>\<open>AsyncResult\<close>).
\<close>

fun run_pool ::
  "(string \<Rightarrow> json option) \<Rightarrow> world \<Rightarrow> string list \<Rightarrow> string \<Rightarrow> string \<Rightarrow> session option
     \<Rightarrow> world \<times> (exn + nat) list" where
  "run_pool loads w [] failed_dir processed_dir session = (w, [])"
| "run_pool loads w (p # ps) failed_dir processed_dir session =
     (let (w', r) = handle_file loads w p failed_dir processed_dir session;
          (w'', rs) = run_pool loads w' ps failed_dir processed_dir session
      in (w'', r # rs))"

text \<open>
  \<^verbatim>\<open>[async_result.get() for async_result in async_results]\<close>: \<^verbatim>\<open>get\<close> raises again what
  its call raised, so the first stored exception leaves the comprehension.
\<close>

fun get_results :: "(exn + nat) list \<Rightarrow> exn + nat list" where
  "get_results [] = Inr []"
| "get_results (Inl e # rs) = Inl e"
| "get_results (Inr n # rs) = (case get_results rs of Inl e \<Rightarrow> Inl e | Inr ns \<Rightarrow> Inr (n # ns))"

definition schedule_workers ::
  "(string \<Rightarrow> json option) \<Rightarrow> dir_tree \<Rightarrow> world \<Rightarrow> string \<Rightarrow> string \<Rightarrow> string \<Rightarrow> session option
     \<Rightarrow> world \<times> (exn + nat \<times> nat \<times> nat)" where
  "schedule_workers loads tree w in_dir failed_dir processed_dir session =
     (let paths = scheduled_paths in_dir failed_dir processed_dir tree;
          file_count = length paths;
          (w', async_results) = run_pool loads w paths failed_dir processed_dir session
      in case get_results async_results of
           Inl e \<Rightarrow> (w', Inl e)
         | Inr results \<Rightarrow>
             (w', Inr (file_count, sum_list results, length (filter (\<lambda>e. e = 0) results))))"

subsection \<open>\<^verbatim>\<open>parse_special_args\<close>\<close>

record args =
  authenv :: bool
  user :: "string option"
  password :: "string option"
  indir :: string
  failed :: "string option"
  processed :: "string option"

text \<open>The truth value of an optional string argument: \<^verbatim>\<open>None\<close> and the empty string are false.\<close>

definition truthy :: "string option \<Rightarrow> bool" where
  "truthy a = (case a of None \<Rightarrow> False | Some s \<Rightarrow> s \<noteq> [])"

text \<open>
  \<^verbatim>\<open>parser.error\<close> ends the process: \<open>Inl\<close> with its message. Otherwise the result is
  \<^verbatim>\<open>(db_user, db_password, failed_dir, processed_dir)\<close>.
\<close>

definition parse_special_args ::
  "args \<Rightarrow> (string \<rightharpoonup> string)
     \<Rightarrow> string + (string option \<times> string option \<times> string \<times> string)" where
  "parse_special_args a environ =
     (if \<not> authenv a \<and> \<not> (truthy (user a) \<and> truthy (password a))
      then Inl (''either --authenv or -u/--user USER and -p/--password ''
                  @ ''PASSWORD needs to be defined'')
      else if authenv a \<and> environ ''MONROE_DB_USER'' = None
      then Inl ''missing user env MONROE_DB_USER''
      else if authenv a \<and> environ ''MONROE_DB_PASSWD'' = None
      then Inl ''missing user env MONROE_DB_PASSWD''
      else
        (let db_user = (if authenv a then environ ''MONROE_DB_USER'' else None);
             db_password = (if authenv a then environ ''MONROE_DB_PASSWD'' else None);
             db_user = (if truthy (user a) then user a else db_user);
             db_password = (if truthy (password a) then password a else db_password);
             failed_dir = (if truthy (failed a) then the (failed a)
                           else indir a @ ''/failed/'');
             processed_dir = (if truthy (processed a) then the (processed a)
                              else indir a @ ''/processed/'')
         in Inr (db_user, db_password, failed_dir, processed_dir)))"

subsection \<open>Which calls took the success path\<close>

text \<open>
  For each scheduled path, in order, whether the \<^verbatim>\<open>try\<close> body of its \<^verbatim>\<open>handle_file\<close> ended with
  \<^verbatim>\<open>return inserts\<close> (\<open>True\<close>) or with an exception (\<open>False\<close>), each call starting in the
  world its predecessor left.
\<close>

fun try_outcomes ::
  "(string \<Rightarrow> json option) \<Rightarrow> world \<Rightarrow> string list \<Rightarrow> string \<Rightarrow> string \<Rightarrow> session option
     \<Rightarrow> bool list" where
  "try_outcomes loads w [] failed_dir processed_dir session = []"
| "try_outcomes loads w (p # ps) failed_dir processed_dir session =
     (case snd (handle_file_try loads w p processed_dir session) of
        Inl e \<Rightarrow> False
      | Inr inserts \<Rightarrow> True)
       # try_outcomes loads (fst (handle_file loads w p failed_dir processed_dir session)) ps
           failed_dir processed_dir session"

section \<open>The order in which a Python 2 dict lists its keys\<close>

text \<open>
  The dict that \<^verbatim>\<open>json.loads\<close> returns is a hash table. \<open>py2_hash\<close> is the hash of a
  string of Python 2 (hash randomisation is off unless asked for), in 64-bit arithmetic.
  A dict of at most five keys has eight slots and is never resized; a key whose slot,
  the low three bits of its hash, is free is stored there, and \<^verbatim>\<open>keys()\<close> and \<^verbatim>\<open>values()\<close>
  list the slots in order. \<open>py2_small_dict\<close> gives the items in that order for the
  pairs inserted in the order of the list, when they are at most five and no two keys
  meet in a slot; other dicts are outside this model (\<open>None\<close>).
\<close>

unbundle bit_operations_syntax

fun py2_hash_loop :: "64 word \<Rightarrow> string \<Rightarrow> 64 word" where
  "py2_hash_loop x [] = x"
| "py2_hash_loop x (c # cs) = py2_hash_loop ((1000003 * x) XOR of_nat (of_char c)) cs"

definition py2_hash :: "string \<Rightarrow> 64 word" where
  "py2_hash s =
     (case s of
        [] \<Rightarrow> 0
      | c # cs \<Rightarrow>
          (let x = py2_hash_loop (push_bit 7 (of_nat (of_char c))) s XOR of_nat (length s)
           in if x = - 1 then - 2 else x))"

definition py2_slot :: "string \<Rightarrow> nat" where
  "py2_slot k = unat (py2_hash k AND 7)"

definition py2_small_dict :: "(string \<times> 'v) list \<Rightarrow> (string \<times> 'v) list option" where
  "py2_small_dict pairs =
     (if length pairs \<le> 5 \<and> distinct (map (\<lambda>kv. py2_slot (fst kv)) pairs)
      then Some (sort_key (\<lambda>kv. py2_slot (fst kv)) pairs)
      else None)"

section \<open>A decoder to run the model on concrete files\<close>

text \<open>
  The theorems below hold for every decoder \<open>loads\<close>. To evaluate the model on concrete
  file contents, \<open>json_loads\<close> decodes a subset of JSON: objects, arrays, strings without
  escape sequences, integers and the three literals, with white space between tokens
  and around the value. It lists the fields of an object in the order of the text, a
  repeated key keeping its first position and its last value; for the sample records
  used below this is also the order in which the Python 2 dict lists them. The fuel of
  the recursion is the length of the text, which bounds its nesting.
\<close>

definition is_ws :: "char \<Rightarrow> bool" where
  "is_ws c = (c = CHR '' '' \<or> c = CHR 0x09 \<or> c = CHR 0x0A \<or> c = CHR 0x0D)"

definition skip_ws :: "string \<Rightarrow> string" where
  "skip_ws s = dropWhile is_ws s"

definition quote :: char where
  "quote = CHR 0x22"

fun decode_string :: "string \<Rightarrow> (string \<times> string) option" where
  "decode_string [] = None"
| "decode_string (c # cs) =
     (if c = quote then Some ([], cs)
      else if c = CHR 0x5C \<or> (of_char c :: nat) < 32 then None
      else (case decode_string cs of None \<Rightarrow> None | Some (s, r) \<Rightarrow> Some (c # s, r)))"

definition decode_digits :: "string \<Rightarrow> (int \<times> string) option" where
  "decode_digits s =
     (let ds = takeWhile is_digit s; r = dropWhile is_digit s
      in if ds = [] \<or> (length ds > 1 \<and> hd ds = CHR ''0'') then None
         else Some (foldl (\<lambda>n c. 10 * n + (int (of_char c) - 48)) 0 ds, r))"

definition decode_number :: "string \<Rightarrow> (json \<times> string) option" where
  "decode_number s =
     (case s of
        [] \<Rightarrow> None
      | c # cs \<Rightarrow>
          if c = CHR ''-'' then map_option (\<lambda>(n, r). (JNumber (- n), r)) (decode_digits cs)
          else map_option (\<lambda>(n, r). (JNumber n, r)) (decode_digits s))"

definition dict_set :: "(string \<times> json) list \<Rightarrow> string \<Rightarrow> json \<Rightarrow> (string \<times> json) list" where
  "dict_set kvs k v =
     (if k \<in> fst ` set kvs
      then map (\<lambda>(k', v'). if k' = k then (k', v) else (k', v')) kvs
      else kvs @ [(k, v)])"

fun decode_value :: "nat \<Rightarrow> string \<Rightarrow> (json \<times> string) option"
  and decode_elements :: "nat \<Rightarrow> json list \<Rightarrow> string \<Rightarrow> (json \<times> string) option"
  and decode_members :: "nat \<Rightarrow> (string \<times> json) list \<Rightarrow> string \<Rightarrow> (json \<times> string) option" where
  "decode_value 0 s = None"
| "decode_value (Suc n) s =
     (case skip_ws s of
        [] \<Rightarrow> None
      | c # cs \<Rightarrow>
          if c = CHR ''{'' then
            (case skip_ws cs of
               [] \<Rightarrow> None
             | d # r \<Rightarrow> if d = CHR ''}'' then Some (JObject [], r) else decode_members n [] cs)
          else if c = CHR ''['' then
            (case skip_ws cs of
               [] \<Rightarrow> None
             | d # r \<Rightarrow> if d = CHR '']'' then Some (JArray [], r) else decode_elements n [] cs)
          else if c = quote then map_option (\<lambda>(t, r). (JString t, r)) (decode_string cs)
          else if take 4 (c # cs) = ''true'' then Some (JBool True, drop 4 (c # cs))
          else if take 5 (c # cs) = ''false'' then Some (JBool False, drop 5 (c # cs))
          else if take 4 (c # cs) = ''null'' then Some (JNull, drop 4 (c # cs))
          else decode_number (c # cs))"
| "decode_elements 0 acc s = None"
| "decode_elements (Suc n) acc s =
     (case decode_value n s of
        None \<Rightarrow> None
      | Some (v, r) \<Rightarrow>
          (case skip_ws r of
             [] \<Rightarrow> None
           | d # r' \<Rightarrow>
               if d = CHR '','' then decode_elements n (acc @ [v]) r'
               else if d = CHR '']'' then Some (JArray (acc @ [v]), r')
               else None))"
| "decode_members 0 acc s = None"
| "decode_members (Suc n) acc s =
     (case skip_ws s of
        [] \<Rightarrow> None
      | c # cs \<Rightarrow>
          if c \<noteq> quote then None
          else
            (case decode_string cs of
               None \<Rightarrow> None
             | Some (k, r) \<Rightarrow>
                 (case skip_ws r of
                    [] \<Rightarrow> None
                  | d # r' \<Rightarrow>
                      if d \<noteq> CHR '':'' then None
                      else
                        (case decode_value n r' of
                           None \<Rightarrow> None
                         | Some (v, r'') \<Rightarrow>
                             (case skip_ws r'' of
                                [] \<Rightarrow> None
                              | e # r3 \<Rightarrow>
                                  if e = CHR '','' then decode_members n (dict_set acc k v) r3
                                  else if e = CHR ''}'' then Some (JObject (dict_set acc k v), r3)
                                  else None)))))"

definition json_loads :: "string \<Rightarrow> json option" where
  "json_loads s =
     (case decode_value (Suc (length s)) s of
        None \<Rightarrow> None
      | Some (v, r) \<Rightarrow> if skip_ws r = [] then Some v else None)"

section \<open>Sample inputs\<close>

text \<open>
  A world holding the given files and directories, with an empty sink, log and console;
  a sink that commits every batch and one that refuses every batch; the directories of
  a default installation.
\<close>

definition sample_world :: "(string \<times> string) list \<Rightarrow> string list \<Rightarrow> world" where
  "sample_world fs ds = \<lparr>files = map_of fs, dirs = ds, executed = [], syslog = [], stdout = []\<rparr>"

definition accepting :: session where
  "accepting done batch = None"

definition rejecting :: "string \<Rightarrow> session" where
  "rejecting msg done batch = Some (SinkError msg)"

definition sample_dirs :: "string list" where
  "sample_dirs = [''/indir'', ''/indir/failed'', ''/indir/processed'']"

text \<open>
  Worlds for the examples: one file in an installation whose processed directory is
  missing; two files of the same name in two subdirectories; a good file beside a
  zero-byte file.
\<close>

definition no_processed_world :: world where
  \<open>no_processed_world =
     sample_world [(''/indir/a.json'', ''{"DataId": "b"}\<newline>'')] [''/indir'', ''/indir/failed'']\<close>


definition mixed_world :: world where
  \<open>mixed_world =
     sample_world [(''/indir/a.json'', ''{"DataId": "b"}\<newline>''), (''/indir/empty.json'', [])]
       sample_dirs\<close>

section \<open>Properties\<close>

lemmas path_defs = dirname_def dest_path_def basename_def slash_def rstrip_slash_def

lemmas handle_defs = handle_file_def handle_file_try_def handle_file_except_def st_size_def
  rename_def parse_json_def create_batch_def tablename_of_def items_def get_cql_def
  replace_dots_def newline_def accepting_def rejecting_def enoent_def enoent_at_def
  batch_add_def

subsection \<open>Decoding the sample lines\<close>

lemma loads_meta:
  \<open>json_loads ''{"DataId": "MONROE.META", "n": 1}\<newline>''
     = Some (JObject [(''DataId'', JString ''MONROE.META''), (''n'', JNumber 1)])\<close>
  by code_simp

lemma loads_b: \<open>json_loads ''{"DataId": "b"}\<newline>'' = Some (JObject [(''DataId'', JString ''b'')])\<close>
  by code_simp

lemma loads_fragment: \<open>json_loads ''{"DataId":\<newline>'' = None\<close>
  by code_simp

lemma loads_two_lines:
  \<open>json_loads ''{"DataId":\<newline>"a"}\<newline>'' = Some (JObject [(''DataId'', JString ''a'')])\<close>
  by code_simp

text \<open>The driver binds the values of the sample records without error.\<close>

lemma bind_b: "bind_params_error ''INSERT INTO b (DataId) VALUES (%s)'' [JString ''b''] = None"
  by code_simp


text \<open>
  The Python 2 dict lists the fields of the sample record with two fields in the order
  of the text.
\<close>

lemma sample_field_order:
  "py2_small_dict [(''DataId'', JString ''MONROE.META''), (''n'', JNumber 1)]
     = Some [(''DataId'', JString ''MONROE.META''), (''n'', JNumber 1)]"
  by code_simp

subsection \<open>The record parser\<close>

lemma parse_lines_good:
  "list_all (\<lambda>l. loads l \<noteq> None) (line # rest) \<Longrightarrow>
   parse_lines loads jsons line single rest =
     Inr (jsons @ map (\<lambda>l. the (loads l)) (line # rest), if rest = [] then single else True)"
  by (induction rest arbitrary: jsons line single) auto

lemma parse_lines_grows:
  "parse_lines loads jsons line single rest = Inr (js, fl) \<Longrightarrow> length jsons < length js"
  by (induction rest arbitrary: jsons line single) (fastforce split: option.splits)+

lemma parse_json_nonempty:
  "parse_json loads name lines = Inr (js, ws) \<Longrightarrow> js \<noteq> []"
  by (auto simp: parse_json_def split: list.splits sum.splits dest: parse_lines_grows)

lemma parse_lines_never_complete:
  "(\<forall>k\<le>length rest. loads (line @ concat (take k rest)) = None) \<Longrightarrow>
     parse_lines loads jsons line single rest = Inl (Exception ''Parse Error '')"
proof (induction rest arbitrary: line single)
  case Nil
  then show ?case by simp
next
  case (Cons l rest)
  from Cons.prems have "loads line = None" by (metis append_Nil2 concat.simps(1) le0 take_0)
  moreover have "\<forall>k\<le>length rest. loads ((line @ l) @ concat (take k rest)) = None"
  proof (intro allI impI)
    fix k assume "k \<le> length rest"
    then have "Suc k \<le> length (l # rest)" by simp
    with Cons.prems have "loads (line @ concat (take (Suc k) (l # rest))) = None" by blast
    then show "loads ((line @ l) @ concat (take k rest)) = None" by simp
  qed
  ultimately show ?case using Cons.IH by simp
qed

lemma fragment_shift:
  assumes "\<forall>k. 0 < k \<and> k \<le> length (t # ts) \<longrightarrow> loads (concat (take k (t # ts))) = None"
  shows "\<forall>k\<le>length ts. loads (t @ concat (take k ts)) = None"
proof (intro allI impI)
  fix k assume "k \<le> length ts"
  then have "0 < Suc k \<and> Suc k \<le> length (t # ts)" by simp
  with assms have "loads (concat (take (Suc k) (t # ts))) = None" by blast
  then show "loads (t @ concat (take k ts)) = None" by simp
qed

lemma parse_lines_trailing_fragment:
  assumes "list_all (\<lambda>l. loads l \<noteq> None) (line # pre)"
    and "tail \<noteq> []"
    and "\<forall>k. 0 < k \<and> k \<le> length tail \<longrightarrow> loads (concat (take k tail)) = None"
  shows "parse_lines loads jsons line single (pre @ tail) = Inl (Exception ''Parse Error '')"
  using assms
proof (induction pre arbitrary: jsons line single)
  case Nil
  from Nil.prems(2) obtain t ts where tail: "tail = t # ts" by (cases tail) auto
  from Nil.prems(3) tail have "\<forall>k\<le>length ts. loads (t @ concat (take k ts)) = None"
    using fragment_shift [of t ts loads] by simp
  from parse_lines_never_complete [OF this] Nil.prems(1) tail show ?case by auto
next
  case (Cons p pre)
  then show ?case by auto
qed

text \<open>
  A file that ends inside a record: after lines that each decode alone comes a tail of
  which no initial part decodes. The records before the tail are dropped with the error.
\<close>

lemma parse_json_trailing_fragment:
  assumes "list_all (\<lambda>l. loads l \<noteq> None) pre"
    and "tail \<noteq> []"
    and "\<forall>k. 0 < k \<and> k \<le> length tail \<longrightarrow> loads (concat (take k tail)) = None"
  shows "parse_json loads name (pre @ tail) = Inl (Exception ''Parse Error '')"
proof (cases pre)
  case Nil
  from assms(2) obtain t ts where tail: "tail = t # ts" by (cases tail) auto
  from assms(3) tail have "\<forall>k\<le>length ts. loads (t @ concat (take k ts)) = None"
    using fragment_shift [of t ts loads] by simp
  from parse_lines_never_complete [OF this] Nil tail show ?thesis
    by (simp add: parse_json_def)
next
  case (Cons l ls)
  with assms parse_lines_trailing_fragment [of loads l ls tail "[]" True]
  show ?thesis by (simp add: parse_json_def)
qed

text \<open>
  C7. A file of \<open>N \<ge> 1\<close> lines, each of which decodes on its own, parses to exactly the
  \<open>N\<close> decoded records in the order of the lines, and no warning is logged. (The file
  processor never parses a file without lines: it refuses zero-size files first.)
\<close>

theorem parse_json_single_lines:
  assumes "lines \<noteq> []" and "list_all (\<lambda>l. loads l \<noteq> None) lines"
  shows "parse_json loads name lines = Inr (map (\<lambda>l. the (loads l)) lines, [])"
  using assms
  by (cases lines) (simp_all add: parse_json_def parse_lines_good del: parse_lines.simps)

theorem parse_json_single_lines_witness:
  \<open>parse_json json_loads ''/indir/a.json''
      [''{"DataId": "MONROE.META", "n": 1}\<newline>'', ''{"DataId": "b"}\<newline>'']
    = Inr ([JObject [(''DataId'', JString ''MONROE.META''), (''n'', JNumber 1)],
            JObject [(''DataId'', JString ''b'')]], [])\<close>
  using parse_json_single_lines
    [of \<open>[''{"DataId": "MONROE.META", "n": 1}\<newline>'', ''{"DataId": "b"}\<newline>'']\<close>
        json_loads \<open>''/indir/a.json''\<close>]
  by (simp add: loads_meta loads_b)

text \<open>
  C4 (the code departs from the claim). The file below holds a record spread over two
  lines, followed by a record on one line. \<^verbatim>\<open>parse_json\<close> returns both records and logs
  no warning: the flag is set to \<^verbatim>\<open>True\<close> again at every turn of the \<^verbatim>\<open>for\<close> loop, so only a
  multi-line record at the end of the file is reported.
\<close>

theorem parse_json_multi_line_unreported:
  \<open>file_lines ''{"DataId":\<newline>"a"}\<newline>{"DataId": "b"}\<newline>''
     = [''{"DataId":\<newline>'', ''"a"}\<newline>'', ''{"DataId": "b"}\<newline>'']
   \<and> parse_json json_loads ''/indir/a.json''
       [''{"DataId":\<newline>'', ''"a"}\<newline>'', ''{"DataId": "b"}\<newline>'']
     = Inr ([JObject [(''DataId'', JString ''a'')], JObject [(''DataId'', JString ''b'')]], [])\<close>
  by (simp add: parse_json_def newline_def loads_b loads_fragment loads_two_lines)

subsection \<open>The batch builder\<close>







lemma create_batch_loop_count:
  "create_batch_loop js p i b pr = (pr', Inr (n, b')) \<Longrightarrow>
     n = i + length js \<and> length b' = length b + length js"
proof (induction js arbitrary: i b pr)
  case Nil
  then show ?case by simp
next
  case (Cons j js)
  from Cons.prems obtain t where t: "tablename_of j = Inr t"
    by (auto split: sum.splits)
  obtain stm vals where g: "get_cql (items j) t = (stm, vals)"
    by (cases "get_cql (items j) t")
  from Cons.prems t g obtain b1 where a: "batch_add b stm vals = Inr b1"
    by (cases "batch_add b stm vals") (auto simp: Let_def)
  then have l: "length b1 = Suc (length b)"
    by (auto simp: batch_add_def split: option.splits if_splits)
  from Cons.prems t g a
  have "create_batch_loop js p (i + 1) b1
          (if p then pr @ [Statement stm vals] else pr) = (pr', Inr (n, b'))"
    by simp
  from Cons.IH [OF this] l show ?case by simp
qed

lemma create_batch_loop_fails:
  "j \<in> set js \<Longrightarrow> tablename_of j = Inl e \<Longrightarrow>
     \<exists>pr' e'. create_batch_loop js p i b pr = (pr', Inl e')"
proof (induction js arbitrary: i b pr)
  case Nil
  then show ?case by simp
next
  case (Cons a js)
  show ?case
  proof (cases "tablename_of a")
    case (Inl e0)
    then show ?thesis by simp
  next
    case (Inr t)
    with Cons.prems have in_js: "j \<in> set js" by auto
    obtain stm vals where g: "get_cql (items a) t = (stm, vals)"
      by (cases "get_cql (items a) t")
    show ?thesis
    proof (cases "batch_add b stm vals")
      case (Inl e1)
      with Inr g show ?thesis by simp
    next
      case added: (Inr b1)
      from Cons.IH [OF in_js Cons.prems(2), where i = "i + 1" and b = b1
          and pr = "if p then pr @ [Statement stm vals] else pr"] Inr g added
      show ?thesis by simp
    qed
  qed
qed

lemma create_batch_loop_no_print:
  "create_batch_loop js False i b pr = (pr', r) \<Longrightarrow> pr' = pr"
  by (induction js arbitrary: i b pr) (auto split: sum.splits prod.splits)

lemma create_batch_count:
  "create_batch js p = (pr, Inr (n, b)) \<Longrightarrow> n = length js \<and> length b = length js"
  by (auto simp: create_batch_def dest: create_batch_loop_count)

lemma create_batch_fails:
  "j \<in> set js \<Longrightarrow> tablename_of j = Inl e \<Longrightarrow> \<exists>pr' e'. create_batch js p = (pr', Inl e')"
  by (simp add: create_batch_def create_batch_loop_fails)

lemma missing_DataId:
  "map_of kvs ''DataId'' = None \<Longrightarrow> tablename_of (JObject kvs) = Inl (KeyError ''DataId'')"
  by (simp add: tablename_of_def)

lemma create_batch_no_print: "create_batch js False = (pr, r) \<Longrightarrow> pr = []"
  by (auto simp: create_batch_def dest: create_batch_loop_no_print)







subsection \<open>The file processor\<close>

lemma rename_ok:
  "files w src = Some c \<Longrightarrow> dirname dst \<in> set (dirs w) \<Longrightarrow>
     rename w src dst = Inr (w\<lparr>files := ((files w)(src := None))(dst \<mapsto> c)\<rparr>)"
  by (simp add: rename_def)


lemma handle_file_try_positive:
  "handle_file_try loads w f pd s = (w', Inr n) \<Longrightarrow> 0 < n"
  by (auto simp: handle_file_try_def Let_def
           split: sum.splits if_splits option.splits prod.splits
           dest!: parse_json_nonempty create_batch_count)

lemma handle_file_try_failure_keeps_files:
  "handle_file_try loads w f pd s = (w1, Inl e) \<Longrightarrow> files w1 = files w \<and> dirs w1 = dirs w"
  by (auto simp: handle_file_try_def Let_def
           split: sum.splits if_splits option.splits prod.splits)

text \<open>
  When the file exists and the directory of its destination under the failed directory
  exists, \<^verbatim>\<open>handle_file\<close> returns a count whatever the decoder, the content and the sink
  do, and the count is 0 when the \<^verbatim>\<open>try\<close> body raised.
\<close>

lemma handle_file_returns:
  assumes "files w f = Some c" and "dirname (dest_path fd f) \<in> set (dirs w)"
  shows "\<exists>w' n. handle_file loads w f fd pd session = (w', Inr n) \<and>
           (\<forall>w1 e. handle_file_try loads w f pd session = (w1, Inl e) \<longrightarrow> n = 0)"
proof (cases "handle_file_try loads w f pd session")
  case (Pair w1 r)
  show ?thesis
  proof (cases r)
    case (Inr n)
    with Pair show ?thesis by (simp add: handle_file_def)
  next
    case (Inl e)
    with Pair have keep: "files w1 = files w" "dirs w1 = dirs w"
      using handle_file_try_failure_keeps_files by blast+
    with assms have "rename w1 f (dest_path fd f)
        = Inr (w1\<lparr>files := ((files w1)(f := None))(dest_path fd f \<mapsto> c)\<rparr>)"
      by (simp add: rename_ok)
    with Pair Inl show ?thesis
      by (cases session) (simp_all add: handle_file_def handle_file_except_def Let_def)
  qed
qed

text \<open>
  C2 (the code departs from the claim). The scan lists \<^verbatim>\<open>/indir/a.json\<close>, and the file is
  gone when its worker runs. \<^verbatim>\<open>os.stat\<close> raises inside the \<^verbatim>\<open>try\<close>; the handler's own
  \<^verbatim>\<open>os.rename\<close> raises as well, outside every \<^verbatim>\<open>try\<close>. \<^verbatim>\<open>handle_file\<close> ends with that
  exception instead of returning 0, and \<^verbatim>\<open>get()\<close> raises it again in
  \<^verbatim>\<open>schedule_workers\<close>, which returns no counts.
\<close>

theorem handle_file_raises:
  \<open>handle_file json_loads (sample_world [] sample_dirs)
      ''/indir/a.json'' ''/indir/failed/'' ''/indir/processed/'' (Some accepting)
    = (sample_world [] sample_dirs, Inl enoent)
   \<and> snd (schedule_workers json_loads (Dir [] [''a.json'']) (sample_world [] sample_dirs)
       ''/indir'' ''/indir/failed/'' ''/indir/processed/'' (Some accepting)) = Inl enoent\<close>
  by (simp add: handle_file_def handle_file_try_def handle_file_except_def st_size_def
        sample_world_def rename_def schedule_workers_def scheduled_paths_def fnmatch_json_def
        join_def slash_def suffix_def)

text \<open>
  C8. With a sink configured, a zero-byte file whose destination directory under the
  failed directory exists is moved there, the zero-size error is the only line logged,
  the sink is not touched, and the result is 0 whatever the decoder and the sink would
  do; a result 0 adds nothing to the sum of the results and one to the number of zero
  results, which are the inserted-record and failed-file counts of the pass. A pass
  over a directory that holds this file only counts one file, no insert and one failure.
\<close>

theorem zero_byte_file:
  assumes "files w f = Some []" and "dirname (dest_path fd f) \<in> set (dirs w)"
  shows "handle_file loads w f fd pd (Some ex) =
           (w\<lparr>files := ((files w)(f := None))(dest_path fd f \<mapsto> []),
              syslog := syslog w
                 @ [(LOG_ERR, ''Zero file size in file '' @ f @ '' moving to '' @ dest_path fd f)]\<rparr>,
            Inr 0)
         \<and> sum_list (pre @ 0 # post) = sum_list (pre @ post)
         \<and> length (filter (\<lambda>e. e = 0) (pre @ (0::nat) # post))
             = Suc (length (filter (\<lambda>e. e = 0) (pre @ post)))
         \<and> (fnmatch_json name \<and> f = join in_dir name \<longrightarrow>
              snd (schedule_workers loads (Dir [] [name]) w in_dir fd pd (Some ex))
                = Inr (1, 0, 1))"
proof -
  have h: "handle_file loads w f fd pd (Some ex) =
           (w\<lparr>files := ((files w)(f := None))(dest_path fd f \<mapsto> []),
              syslog := syslog w
                 @ [(LOG_ERR, ''Zero file size in file '' @ f @ '' moving to '' @ dest_path fd f)]\<rparr>,
            Inr 0)"
    using assms
    by (simp add: handle_file_def handle_file_try_def handle_file_except_def st_size_def
          rename_def Let_def)
  have s: "fnmatch_json name \<and> f = join in_dir name \<longrightarrow>
              snd (schedule_workers loads (Dir [] [name]) w in_dir fd pd (Some ex))
                = Inr (1, 0, 1)"
  proof (intro impI)
    assume "fnmatch_json name \<and> f = join in_dir name"
    then have "scheduled_paths in_dir fd pd (Dir [] [name]) = [f]"
      by (simp add: scheduled_paths_def)
    with h show "snd (schedule_workers loads (Dir [] [name]) w in_dir fd pd (Some ex))
                = Inr (1, 0, 1)"
      by (simp add: schedule_workers_def Let_def)
  qed
  have a: "sum_list (pre @ 0 # post) = sum_list (pre @ post)" by simp
  have b: "length (filter (\<lambda>e. e = 0) (pre @ (0::nat) # post))
             = Suc (length (filter (\<lambda>e. e = 0) (pre @ post)))" by simp
  from h a b s show ?thesis by (intro conjI)
qed

theorem zero_byte_file_witness:
  "snd (handle_file json_loads (sample_world [(''/indir/empty.json'', [])] sample_dirs)
         ''/indir/empty.json'' ''/indir/failed/'' ''/indir/processed/'' (Some accepting)) = Inr 0
   \<and> files (fst (handle_file json_loads (sample_world [(''/indir/empty.json'', [])] sample_dirs)
         ''/indir/empty.json'' ''/indir/failed/'' ''/indir/processed/'' (Some accepting)))
        ''/indir/failed/empty.json'' = Some []
   \<and> executed (fst (handle_file json_loads (sample_world [(''/indir/empty.json'', [])] sample_dirs)
         ''/indir/empty.json'' ''/indir/failed/'' ''/indir/processed/'' (Some accepting))) = []
   \<and> sum_list [3, 0, 2] = sum_list [3, 2::nat]
   \<and> length (filter (\<lambda>e. e = 0) [3, 0, 2::nat]) = Suc (length (filter (\<lambda>e. e = 0) [3, 2::nat]))
   \<and> snd (schedule_workers json_loads (Dir [] [''empty.json''])
            (sample_world [(''/indir/empty.json'', [])] sample_dirs)
            ''/indir'' ''/indir/failed/'' ''/indir/processed/'' (Some accepting)) = Inr (1, 0, 1)"
  using zero_byte_file [of "sample_world [(''/indir/empty.json'', [])] sample_dirs"
      "''/indir/empty.json''" "''/indir/failed/''" json_loads "''/indir/processed/''" accepting
      "[3]" "[2]" "''empty.json''" "''/indir''"]
  by (simp add: sample_world_def sample_dirs_def path_defs fnmatch_json_def join_def suffix_def)

lemma handle_file_try_no_execute:
  assumes "files w f = Some c"
    and "(\<exists>e. parse_json loads f (file_lines c) = Inl e) \<or>
         (\<exists>js ws j e. parse_json loads f (file_lines c) = Inr (js, ws) \<and> j \<in> set js
            \<and> tablename_of j = Inl e)"
  shows "\<exists>w1 e. handle_file_try loads w f pd session = (w1, Inl e) \<and> executed w1 = executed w"
proof (cases "c = []")
  case True
  with assms(1) show ?thesis by (simp add: handle_file_try_def st_size_def)
next
  case False
  from assms(2) show ?thesis
  proof
    assume "\<exists>e. parse_json loads f (file_lines c) = Inl e"
    with assms(1) False show ?thesis
      by (auto simp: handle_file_try_def st_size_def)
  next
    assume "\<exists>js ws j e. parse_json loads f (file_lines c) = Inr (js, ws) \<and> j \<in> set js
            \<and> tablename_of j = Inl e"
    then obtain js ws j e where p: "parse_json loads f (file_lines c) = Inr (js, ws)"
      and j: "j \<in> set js" "tablename_of j = Inl e" by blast
    from create_batch_fails [OF j] obtain pr' e' where
      "create_batch js (session = None) = (pr', Inl e')" by blast
    with assms(1) False p show ?thesis
      by (simp add: handle_file_try_def st_size_def Let_def)
  qed
qed

text \<open>
  C5. With a sink configured, let the parse of a file fail (the file ends inside a
  record) or let it succeed with a record from which no table name can be derived (no
  \<^verbatim>\<open>DataId\<close> field, in particular). Then nothing is submitted to the sink, the result is 0,
  and the file, valid records included, is moved under the failed directory, provided
  the directory of that destination exists.
\<close>

theorem handle_file_all_or_nothing:
  assumes "files w f = Some c"
    and "dirname (dest_path fd f) \<in> set (dirs w)"
    and "(\<exists>e. parse_json loads f (file_lines c) = Inl e) \<or>
         (\<exists>js ws j e. parse_json loads f (file_lines c) = Inr (js, ws) \<and> j \<in> set js
            \<and> tablename_of j = Inl e)"
  shows "\<exists>w'. handle_file loads w f fd pd (Some ex) = (w', Inr 0)
           \<and> executed w' = executed w
           \<and> files w' = ((files w)(f := None))(dest_path fd f \<mapsto> c)"
proof -
  from handle_file_try_no_execute [OF assms(1) assms(3)] obtain w1 e where
    t: "handle_file_try loads w f pd (Some ex) = (w1, Inl e)" and x: "executed w1 = executed w"
    by blast
  from t have keep: "files w1 = files w" "dirs w1 = dirs w"
    using handle_file_try_failure_keeps_files by blast+
  with assms have "rename w1 f (dest_path fd f)
      = Inr (w1\<lparr>files := ((files w1)(f := None))(dest_path fd f \<mapsto> c)\<rparr>)"
    by (simp add: rename_ok)
  with t x keep show ?thesis
    by (simp add: handle_file_def handle_file_except_def Let_def)
qed

theorem handle_file_all_or_nothing_witness:
  \<open>snd (handle_file json_loads
          (sample_world [(''/indir/a.json'', ''{"DataId": "b"}\<newline>{"DataId":\<newline>'')] sample_dirs)
          ''/indir/a.json'' ''/indir/failed/'' ''/indir/processed/'' (Some accepting)) = Inr 0
   \<and> executed (fst (handle_file json_loads
          (sample_world [(''/indir/a.json'', ''{"DataId": "b"}\<newline>{"DataId":\<newline>'')] sample_dirs)
          ''/indir/a.json'' ''/indir/failed/'' ''/indir/processed/'' (Some accepting))) = []
   \<and> files (fst (handle_file json_loads
          (sample_world [(''/indir/a.json'', ''{"DataId": "b"}\<newline>{"DataId":\<newline>'')] sample_dirs)
          ''/indir/a.json'' ''/indir/failed/'' ''/indir/processed/'' (Some accepting)))
        ''/indir/failed/a.json'' = Some ''{"DataId": "b"}\<newline>{"DataId":\<newline>''\<close>
  using handle_file_all_or_nothing [of
      \<open>sample_world [(''/indir/a.json'', ''{"DataId": "b"}\<newline>{"DataId":\<newline>'')] sample_dirs\<close>
      "''/indir/a.json''" \<open>''{"DataId": "b"}\<newline>{"DataId":\<newline>''\<close>
      "''/indir/failed/''" json_loads "''/indir/processed/''" accepting]
  by (auto simp: sample_world_def sample_dirs_def path_defs parse_json_def newline_def
        loads_b loads_fragment)

text \<open>
  C3 (as amended). With a sink configured, let the file parse, the batch be built and
  the sink commit it, and let the move under the processed directory fail because the
  destination's directory is missing, while the one under the failed directory exists.
  Then the failure is handled like every other error of the file: the batch stays
  committed, the file is moved under the failed directory, the one line logged is the
  usual error line (the error text, the file and the failed destination, at
  \<^verbatim>\<open>LOG_ERR\<close>), and the result is 0.
\<close>

theorem rename_failure_like_any_error:
  assumes "files w f = Some c"
    and "parse_json loads f (file_lines c) = Inr (js, ws)"
    and "create_batch js False = (pr, Inr (n, b))"
    and "ex (executed w) b = None"
    and "dirname (dest_path pd f) \<notin> set (dirs w)"
    and "dirname (dest_path fd f) \<in> set (dirs w)"
  shows "handle_file loads w f fd pd (Some ex) =
           (w\<lparr>files := ((files w)(f := None))(dest_path fd f \<mapsto> c),
              executed := executed w @ [b],
              syslog := syslog w @ ws
                 @ [(LOG_ERR, str_exn enoent @ '' in file '' @ f @ '' moving to '' @ dest_path fd f)]\<rparr>,
            Inr 0)"
proof -
  from assms(3) have "pr = []" by (rule create_batch_no_print)
  moreover from assms(2) have "c \<noteq> []" by (auto simp: parse_json_def)
  ultimately show ?thesis using assms
    by (simp add: handle_file_def handle_file_try_def handle_file_except_def st_size_def
          rename_def Let_def)
qed

theorem rename_failure_like_any_error_witness:
  \<open>snd (handle_file json_loads no_processed_world
          ''/indir/a.json'' ''/indir/failed/'' ''/indir/processed/'' (Some accepting)) = Inr 0
   \<and> executed (fst (handle_file json_loads no_processed_world
          ''/indir/a.json'' ''/indir/failed/'' ''/indir/processed/'' (Some accepting)))
       = [[(''INSERT INTO b (DataId) VALUES (%s)'', [JString ''b''])]]
   \<and> syslog (fst (handle_file json_loads no_processed_world
          ''/indir/a.json'' ''/indir/failed/'' ''/indir/processed/'' (Some accepting)))
       = [(LOG_ERR, ''[Errno 2] No such file or directory in file /indir/a.json moving to /indir/failed/a.json'')]
   \<and> files (fst (handle_file json_loads no_processed_world
          ''/indir/a.json'' ''/indir/failed/'' ''/indir/processed/'' (Some accepting)))
        ''/indir/failed/a.json'' = Some ''{"DataId": "b"}\<newline>''\<close>
  using rename_failure_like_any_error [of no_processed_world
      "''/indir/a.json''" \<open>''{"DataId": "b"}\<newline>''\<close> json_loads
      \<open>[JObject [(''DataId'', JString ''b'')]]\<close> "[]" "[]" 1
      \<open>[(''INSERT INTO b (DataId) VALUES (%s)'', [JString ''b''])]\<close>
      accepting "''/indir/processed/''" "''/indir/failed/''"]
  by (simp add: no_processed_world_def sample_world_def path_defs parse_json_def newline_def
        loads_b create_batch_def tablename_of_def items_def get_cql_def replace_dots_def
        batch_add_def bind_b accepting_def enoent_def)

text \<open>
  The claim C3 as stated fails. In the same world, one run commits the batch and then
  fails to move the file; the other is refused by the sink, with an error of the same
  text. Both return 0, both leave the same log, console and files: nothing that
  \<^verbatim>\<open>handle_file\<close> reports tells the committed batch from the refused one.
\<close>

theorem rename_failure_not_distinct:
  \<open>executed (fst (handle_file json_loads no_processed_world ''/indir/a.json''
       ''/indir/failed/'' ''/indir/processed/'' (Some accepting)))
     = [[(''INSERT INTO b (DataId) VALUES (%s)'', [JString ''b''])]]
   \<and> executed (fst (handle_file json_loads no_processed_world ''/indir/a.json''
       ''/indir/failed/'' ''/indir/processed/''
       (Some (rejecting ''[Errno 2] No such file or directory'')))) = []
   \<and> snd (handle_file json_loads no_processed_world ''/indir/a.json''
       ''/indir/failed/'' ''/indir/processed/'' (Some accepting)) = Inr 0
   \<and> snd (handle_file json_loads no_processed_world ''/indir/a.json''
       ''/indir/failed/'' ''/indir/processed/''
       (Some (rejecting ''[Errno 2] No such file or directory''))) = Inr 0
   \<and> syslog (fst (handle_file json_loads no_processed_world ''/indir/a.json''
       ''/indir/failed/'' ''/indir/processed/'' (Some accepting)))
     = [(LOG_ERR, ''[Errno 2] No such file or directory in file /indir/a.json moving to /indir/failed/a.json'')]
   \<and> syslog (fst (handle_file json_loads no_processed_world ''/indir/a.json''
       ''/indir/failed/'' ''/indir/processed/''
       (Some (rejecting ''[Errno 2] No such file or directory''))))
     = syslog (fst (handle_file json_loads no_processed_world ''/indir/a.json''
       ''/indir/failed/'' ''/indir/processed/'' (Some accepting)))
   \<and> stdout (fst (handle_file json_loads no_processed_world ''/indir/a.json''
       ''/indir/failed/'' ''/indir/processed/''
       (Some (rejecting ''[Errno 2] No such file or directory''))))
     = stdout (fst (handle_file json_loads no_processed_world ''/indir/a.json''
       ''/indir/failed/'' ''/indir/processed/'' (Some accepting)))
   \<and> files (fst (handle_file json_loads no_processed_world ''/indir/a.json''
       ''/indir/failed/'' ''/indir/processed/''
       (Some (rejecting ''[Errno 2] No such file or directory''))))
     = files (fst (handle_file json_loads no_processed_world ''/indir/a.json''
       ''/indir/failed/'' ''/indir/processed/'' (Some accepting)))\<close>
  by (simp add: no_processed_world_def sample_world_def path_defs handle_defs loads_b bind_b Let_def)


lemma handle_file_outcome:
  assumes "handle_file loads w f fd pd session = (w', Inr n)"
  shows "(0 < n) = (case snd (handle_file_try loads w f pd session) of
                      Inl e \<Rightarrow> False | Inr inserts \<Rightarrow> True)"
proof (cases "handle_file_try loads w f pd session")
  case (Pair w1 r)
  show ?thesis
  proof (cases r)
    case (Inr m)
    with Pair assms show ?thesis
      by (auto simp: handle_file_def dest: handle_file_try_positive)
  next
    case (Inl e)
    with Pair assms show ?thesis
      by (auto simp: handle_file_def handle_file_except_def Let_def
               split: option.splits sum.splits)
  qed
qed




subsection \<open>The directory scan\<close>

lemma join_last:
  "d \<noteq> [] \<Longrightarrow> join a d \<noteq> [] \<and> last (join a d) = last d"
  by (auto simp: join_def)

text \<open>
  A directory string that ends in a slash, as the relocation needs it, is never equal to
  a joined path: with such strings the pruning test keeps every directory name.
\<close>

lemma slash_terminated_never_pruned:
  assumes "d \<noteq> []" and "last d \<noteq> slash"
    and "failed_dir \<noteq> [] \<and> last failed_dir = slash"
    and "processed_dir \<noteq> [] \<and> last processed_dir = slash"
  shows "join in_dir d \<notin> {processed_dir, failed_dir}"
  using assms join_last [of d in_dir] by auto

text \<open>
  C1 (the code departs from the claim). With the default directories computed by
  \<^verbatim>\<open>parse_special_args\<close>, which end in a slash, \<^verbatim>\<open>os.path.join(in_dir, d)\<close> never equals
  either of them: the traversal descends into both and schedules the files inside.
\<close>

theorem default_dirs_are_scanned:
  "parse_special_args
     \<lparr>authenv = False, user = Some ''monroe'', password = Some ''secret'', indir = ''/indir'',
      failed = None, processed = None\<rparr> Map.empty
   = Inr (Some ''monroe'', Some ''secret'', ''/indir/failed/'', ''/indir/processed/'')
   \<and> scheduled_paths ''/indir'' ''/indir/failed/'' ''/indir/processed/''
       (Dir [(''failed'', Dir [] [''x.json'']), (''processed'', Dir [] [''y.json''])]
            [''a.json'', ''notes.txt''])
     = [''/indir/a.json'', ''/indir/failed/x.json'', ''/indir/processed/y.json'']
   \<and> prefix ''/indir/failed/'' ''/indir/failed/x.json''
   \<and> prefix ''/indir/processed/'' ''/indir/processed/y.json''"
  by (simp add: parse_special_args_def truthy_def scheduled_paths_def fnmatch_json_def
        join_def slash_def suffix_def)

subsection \<open>The counts of a pass\<close>

lemma run_pool_outcomes:
  "run_pool loads w ps fd pd session = (w', rs) \<Longrightarrow> get_results rs = Inr ns \<Longrightarrow>
     map (\<lambda>n. 0 < n) ns = try_outcomes loads w ps fd pd session"
proof (induction ps arbitrary: w w' rs ns)
  case Nil
  then show ?case by auto
next
  case (Cons p ps)
  obtain w1 r where h: "handle_file loads w p fd pd session = (w1, r)"
    by (cases "handle_file loads w p fd pd session")
  obtain w2 rs' where t: "run_pool loads w1 ps fd pd session = (w2, rs')"
    by (cases "run_pool loads w1 ps fd pd session")
  from Cons.prems(1) h t have rs: "rs = r # rs'" by simp
  with Cons.prems(2) obtain n ns' where r: "r = Inr n" and ns: "ns = n # ns'"
    and g: "get_results rs' = Inr ns'"
    by (cases r) (auto split: sum.splits)
  from Cons.IH [OF t g] have "map (\<lambda>n. 0 < n) ns' = try_outcomes loads w1 ps fd pd session" .
  moreover from h r have "(0 < n) = (case snd (handle_file_try loads w p pd session) of
                      Inl e \<Rightarrow> False | Inr inserts \<Rightarrow> True)"
    using handle_file_outcome by blast
  ultimately show ?case using ns h by simp
qed

lemma run_pool_length:
  "run_pool loads w ps fd pd session = (w', rs) \<Longrightarrow> length rs = length ps"
  by (induction ps arbitrary: w w' rs) (auto split: prod.splits)

lemma get_results_length: "get_results rs = Inr ns \<Longrightarrow> length ns = length rs"
  by (induction rs arbitrary: ns rule: get_results.induct) (auto split: sum.splits)

lemma count_zero_positive:
  "length (filter (\<lambda>e. e = 0) (ns::nat list)) = length (filter Not (map (\<lambda>n. 0 < n) ns))
   \<and> length ns = length (filter Not (map (\<lambda>n. 0 < n) ns))
        + length (filter id (map (\<lambda>n. 0 < n) ns))"
  by (induction ns) auto

text \<open>
  C10. A \<^verbatim>\<open>try\<close> body that reaches \<^verbatim>\<open>return inserts\<close> returns a positive count, because a
  parse that returns has at least one record. Hence, when \<^verbatim>\<open>schedule_workers\<close> returns
  its counts, the number of zero results is the number of calls whose \<^verbatim>\<open>try\<close> body
  raised, and the file count is that number plus the number of calls whose \<^verbatim>\<open>try\<close> body
  returned.
\<close>

theorem success_is_positive:
  "(handle_file_try loads w f pd session = (w1, Inr n) \<longrightarrow> 0 < n) \<and>
   (parse_json loads name lines = Inr (js, ws) \<longrightarrow> js \<noteq> []) \<and>
   (schedule_workers loads tree w in_dir fd pd session
      = (w2, Inr (file_count, insert_count, failed_count)) \<longrightarrow>
    failed_count
      = length (filter Not (try_outcomes loads w (scheduled_paths in_dir fd pd tree) fd pd session))
    \<and> file_count
      = failed_count
        + length (filter id (try_outcomes loads w (scheduled_paths in_dir fd pd tree) fd pd session)))"
proof (intro conjI impI)
  assume "handle_file_try loads w f pd session = (w1, Inr n)"
  then show "0 < n" by (rule handle_file_try_positive)
next
  assume "parse_json loads name lines = Inr (js, ws)"
  then show "js \<noteq> []" by (rule parse_json_nonempty)
next
  assume s: "schedule_workers loads tree w in_dir fd pd session
      = (w2, Inr (file_count, insert_count, failed_count))"
  let ?ps = "scheduled_paths in_dir fd pd tree"
  obtain w' rs where rp: "run_pool loads w ?ps fd pd session = (w', rs)"
    by (cases "run_pool loads w ?ps fd pd session")
  with s obtain ns where g: "get_results rs = Inr ns"
    and fc: "file_count = length ?ps"
    and failc: "failed_count = length (filter (\<lambda>e. e = 0) ns)"
    by (auto simp: schedule_workers_def Let_def split: sum.splits)
  from run_pool_outcomes [OF rp g]
  have o: "try_outcomes loads w ?ps fd pd session = map (\<lambda>n. 0 < n) ns" by simp
  from run_pool_length [OF rp] get_results_length [OF g] fc
  have l: "file_count = length ns" by simp
  show "failed_count = length (filter Not (try_outcomes loads w ?ps fd pd session))"
    using o failc count_zero_positive [of ns] by simp
  show "file_count = failed_count + length (filter id (try_outcomes loads w ?ps fd pd session))"
    using o failc l count_zero_positive [of ns] by simp
qed

theorem success_is_positive_witness:
  \<open>snd (schedule_workers json_loads (Dir [] [''a.json'', ''empty.json'']) mixed_world
          ''/indir'' ''/indir/failed/'' ''/indir/processed/'' (Some accepting)) = Inr (2, 1, 1)
   \<and> length (filter Not (try_outcomes json_loads mixed_world
               (scheduled_paths ''/indir'' ''/indir/failed/'' ''/indir/processed/''
                  (Dir [] [''a.json'', ''empty.json'']))
               ''/indir/failed/'' ''/indir/processed/'' (Some accepting))) = 1
   \<and> length (filter id (try_outcomes json_loads mixed_world
               (scheduled_paths ''/indir'' ''/indir/failed/'' ''/indir/processed/''
                  (Dir [] [''a.json'', ''empty.json'']))
               ''/indir/failed/'' ''/indir/processed/'' (Some accepting))) = 1
   \<and> snd (handle_file_try json_loads mixed_world ''/indir/a.json'' ''/indir/processed/''
            (Some accepting)) = Inr 1
   \<and> (0::nat) < 1\<close>
proof -
  define w2 where "w2 = fst (schedule_workers json_loads (Dir [] [''a.json'', ''empty.json''])
          mixed_world ''/indir'' ''/indir/failed/'' ''/indir/processed/'' (Some accepting))"
  define w1 where "w1 = fst (handle_file_try json_loads mixed_world ''/indir/a.json''
          ''/indir/processed/'' (Some accepting))"
  have s: "schedule_workers json_loads (Dir [] [''a.json'', ''empty.json''])
          mixed_world ''/indir'' ''/indir/failed/'' ''/indir/processed/'' (Some accepting)
         = (w2, Inr (2, 1, 1))"
    unfolding w2_def
    by (simp add: schedule_workers_def scheduled_paths_def fnmatch_json_def join_def suffix_def
          mixed_world_def sample_world_def sample_dirs_def path_defs handle_defs loads_b bind_b Let_def)
  have t: "handle_file_try json_loads mixed_world ''/indir/a.json'' ''/indir/processed/''
            (Some accepting) = (w1, Inr 1)"
    unfolding w1_def
    by (simp add: mixed_world_def sample_world_def sample_dirs_def path_defs handle_defs
          loads_b bind_b Let_def)
  have p: \<open>parse_json json_loads ''/indir/a.json'' [''{"DataId": "b"}\<newline>'']
             = Inr ([JObject [(''DataId'', JString ''b'')]], [])\<close>
    by (simp add: parse_json_def loads_b)
  note inst = success_is_positive [of json_loads mixed_world "''/indir/a.json''"
      "''/indir/processed/''" "Some accepting" w1 1 "''/indir/a.json''"
      \<open>[''{"DataId": "b"}\<newline>'']\<close> \<open>[JObject [(''DataId'', JString ''b'')]]\<close> "[]"
      "Dir [] [''a.json'', ''empty.json'']" "''/indir''" "''/indir/failed/''" w2 2 1 1]
  from inst s have c1: "length (filter Not (try_outcomes json_loads mixed_world
               (scheduled_paths ''/indir'' ''/indir/failed/'' ''/indir/processed/''
                  (Dir [] [''a.json'', ''empty.json'']))
               ''/indir/failed/'' ''/indir/processed/'' (Some accepting))) = 1"
    by simp
  from inst s have "2 = 1 + length (filter id (try_outcomes json_loads mixed_world
               (scheduled_paths ''/indir'' ''/indir/failed/'' ''/indir/processed/''
                  (Dir [] [''a.json'', ''empty.json'']))
               ''/indir/failed/'' ''/indir/processed/'' (Some accepting)))"
    by blast
  then have c2: "length (filter id (try_outcomes json_loads mixed_world
               (scheduled_paths ''/indir'' ''/indir/failed/'' ''/indir/processed/''
                  (Dir [] [''a.json'', ''empty.json'']))
               ''/indir/failed/'' ''/indir/processed/'' (Some accepting))) = 1"
    by simp
  from inst t p have c3: "(0::nat) < 1" by blast
  from s t c1 c2 c3 show ?thesis
    unfolding w1_def [symmetric] w2_def [symmetric] by simp
qed

end
